theory Spec2Isabelle
  imports Main "HOL-Library.Word"
begin

section \<open>Python values\<close>

text \<open>
  The relay (\<^verbatim>\<open>src/relay/main.py\<close>) exchanges JSON frames with its client and keeps
  Python values in its fields. \<open>json\<close> models the values \<^verbatim>\<open>json.loads\<close> produces and
  \<^verbatim>\<open>send_json\<close> consumes: \<open>JNull\<close> is Python's \<^verbatim>\<open>None\<close>, a \<open>JObj\<close> is a dict
  in insertion order (its keys are distinct in every dict Python builds), numbers are
  integers (the only float of the source, the default scan timeout \<^verbatim>\<open>5.0\<close>, is
  written \<open>JNum 5\<close>).
\<close>

datatype json =
    JNull
  | JBool bool
  | JNum int
  | JStr string
  | JArr "json list"
  | JObj "(string \<times> json) list"

text \<open>Truth value testing, as \<^verbatim>\<open>if msg_id:\<close> and \<^verbatim>\<open>device_name or device_id\<close> use it.\<close>

fun truthy :: "json \<Rightarrow> bool" where
  "truthy JNull = False"
| "truthy (JBool b) = b"
| "truthy (JNum n) = (n \<noteq> 0)"
| "truthy (JStr s) = (s \<noteq> [])"
| "truthy (JArr xs) = (xs \<noteq> [])"
| "truthy (JObj kvs) = (kvs \<noteq> [])"

definition py_or :: "json \<Rightarrow> json \<Rightarrow> json" where
  "py_or a b = (if truthy a then a else b)"

fun type_name :: "json \<Rightarrow> string" where
  "type_name JNull = ''NoneType''"
| "type_name (JBool b) = ''bool''"
| "type_name (JNum n) = ''int''"
| "type_name (JStr s) = ''str''"
| "type_name (JArr xs) = ''list''"
| "type_name (JObj kvs) = ''dict''"

subsection \<open>Exceptions\<close>

text \<open>
  An exception is its class and the text \<^verbatim>\<open>str(e)\<close> gives. Every class below derives
  from \<^verbatim>\<open>Exception\<close>, so \<^verbatim>\<open>except Exception\<close> catches all of them;
  \<open>TransportError\<close> stands for whatever the BLE library or the channel raises.
\<close>

datatype exn_class =
    ConnectionError
  | ValueError
  | KeyError
  | AttributeError
  | TypeError
  | JSONDecodeError
  | WebSocketDisconnect
  | TransportError

datatype exn = Exn exn_class string

fun exn_class_of :: "exn \<Rightarrow> exn_class" where
  "exn_class_of (Exn c m) = c"

fun str_exn :: "exn \<Rightarrow> string" where
  "str_exn (Exn c m) = m"

subsection \<open>Text helpers of the Python runtime\<close>

definition digit_char :: "nat \<Rightarrow> char" where
  "digit_char d = ''0123456789'' ! d"

fun dec :: "nat \<Rightarrow> string" where
  "dec n = (if n < 10 then [digit_char n] else dec (n div 10) @ [digit_char (n mod 10)])"

definition str_int :: "int \<Rightarrow> string" where
  "str_int i = (if i < 0 then CHR ''-'' # dec (nat (- i)) else dec (nat i))"

fun join :: "string \<Rightarrow> string list \<Rightarrow> string" where
  "join sep [] = []"
| "join sep [x] = x"
| "join sep (x # y # zs) = x @ sep @ join sep (y # zs)"

definition quote :: "string \<Rightarrow> string" where
  "quote s = [CHR 0x27] @ s @ [CHR 0x27]"

text \<open>
  \<^verbatim>\<open>repr\<close> of a value. A string is put between single quotes, which is what
  Python prints when the string has no quote, backslash or control character.
\<close>

primrec py_repr :: "json \<Rightarrow> string" where
  "py_repr JNull = ''None''"
| "py_repr (JBool b) = (if b then ''True'' else ''False'')"
| "py_repr (JNum n) = str_int n"
| "py_repr (JStr s) = quote s"
| "py_repr (JArr xs) = ''['' @ join '', '' (map py_repr xs) @ '']''"
| "py_repr (JObj kvs) =
     ''{'' @ join '', '' (map (\<lambda>kv. quote (fst kv) @ '': '' @ snd kv)
                              (map (map_prod id py_repr) kvs)) @ ''}''"

text \<open>\<^verbatim>\<open>str\<close> of a value, as the f-string \<^verbatim>\<open>f"Unknown action: {action}"\<close> formats it.\<close>

fun py_str :: "json \<Rightarrow> string" where
  "py_str (JStr s) = s"
| "py_str v = py_repr v"

text \<open>\<^verbatim>\<open>str.lower\<close> on ASCII text (the identifiers compared are UUIDs).\<close>

definition lower_char :: "char \<Rightarrow> char" where
  "lower_char c =
     (case map_of (zip ''ABCDEFGHIJKLMNOPQRSTUVWXYZ'' ''abcdefghijklmnopqrstuvwxyz'') c of
        None \<Rightarrow> c
      | Some l \<Rightarrow> l)"

definition lower :: "string \<Rightarrow> string" where
  "lower s = map lower_char s"

text \<open>\<^verbatim>\<open>str.startswith\<close>.\<close>

definition startswith :: "string \<Rightarrow> string \<Rightarrow> bool" where
  "startswith s p = (take (length p) s = p)"

subsection \<open>Dictionaries\<close>

text \<open>\<^verbatim>\<open>d.get(k)\<close> gives \<^verbatim>\<open>None\<close> for a missing key, \<^verbatim>\<open>d.get(k, default)\<close> the default,
  \<^verbatim>\<open>d[k]\<close> raises \<^verbatim>\<open>KeyError(k)\<close>, whose text is the \<^verbatim>\<open>repr\<close> of the key.\<close>

definition dict_get_default :: "(string \<times> json) list \<Rightarrow> string \<Rightarrow> json \<Rightarrow> json" where
  "dict_get_default d k dflt = (case map_of d k of None \<Rightarrow> dflt | Some v \<Rightarrow> v)"

definition dict_get :: "(string \<times> json) list \<Rightarrow> string \<Rightarrow> json" where
  "dict_get d k = dict_get_default d k JNull"

definition dict_item :: "(string \<times> json) list \<Rightarrow> string \<Rightarrow> exn + json" where
  "dict_item d k = (case map_of d k of None \<Rightarrow> Inl (Exn KeyError (quote k)) | Some v \<Rightarrow> Inr v)"

subsection \<open>Byte strings\<close>

type_synonym byte = "8 word"

fun hex_digit :: "char \<Rightarrow> nat option" where
  "hex_digit c =
     (let n = (of_char c :: nat) in
      if 48 \<le> n \<and> n \<le> 57 then Some (n - 48)
      else if 97 \<le> n \<and> n \<le> 102 then Some (n - 87)
      else if 65 \<le> n \<and> n \<le> 70 then Some (n - 55)
      else None)"

definition is_space :: "char \<Rightarrow> bool" where
  "is_space c = ((of_char c :: nat) \<in> {9, 10, 11, 12, 13, 32})"

definition fromhex_error :: "nat \<Rightarrow> exn" where
  "fromhex_error pos =
     Exn ValueError (''non-hexadecimal number found in fromhex() arg at position '' @ dec pos)"

text \<open>
  \<^verbatim>\<open>bytes.fromhex\<close> on a string: white space between bytes is skipped, every byte
  is two hexadecimal digits of either case, anything else raises \<^verbatim>\<open>ValueError\<close>
  naming the position (CPython up to 3.13).
\<close>

fun fromhex_loop :: "string \<Rightarrow> nat \<Rightarrow> byte list \<Rightarrow> exn + byte list" where
  "fromhex_loop [] pos acc = Inr acc"
| "fromhex_loop (c # cs) pos acc =
     (if is_space c then fromhex_loop cs (pos + 1) acc
      else case hex_digit c of
             None \<Rightarrow> Inl (fromhex_error pos)
           | Some hi \<Rightarrow>
               (case cs of
                  [] \<Rightarrow> Inl (fromhex_error (pos + 1))
                | d # ds \<Rightarrow>
                    (case hex_digit d of
                       None \<Rightarrow> Inl (fromhex_error (pos + 1))
                     | Some lo \<Rightarrow> fromhex_loop ds (pos + 2) (acc @ [of_nat (hi * 16 + lo)]))))"

text \<open>\<^verbatim>\<open>bytes.fromhex(hex_data)\<close> on whatever value the request carried.\<close>

fun fromhex :: "json \<Rightarrow> exn + byte list" where
  "fromhex (JStr s) = fromhex_loop s 0 []"
| "fromhex v = Inl (Exn TypeError (''fromhex() argument must be str, not '' @ type_name v))"

section \<open>The device transport and the client channel\<close>

text \<open>
  The BLE library (bleak) and the WebSocket are collaborators outside the repository.
  Their objects are modelled by the attributes the relay reads, their calls by the
  outcome each call site meets: \<open>Inl e\<close> when the call raises \<open>e\<close>, \<open>Inr\<close> when
  it returns.
\<close>

record ble_device =
  dev_address :: string
  dev_name :: "string option"

record adv_data =
  rssi :: int

record gatt_char =
  char_uuid :: string
  char_handle :: nat

record gatt_service =
  svc_uuid :: string
  characteristics :: "gatt_char list"

text \<open>A \<^verbatim>\<open>BleakClient\<close>: the address it was built for and its \<^verbatim>\<open>is_connected\<close>.\<close>

record ble_client =
  address :: json
  is_connected :: bool

type_synonym channel = nat

text \<open>What the relay does to the outside world, in order.\<close>

datatype event =
    Discover json
  | ClientConnect json
  | ClientDisconnect json
  | StartNotify gatt_char
  | WriteGattChar "gatt_char option" "byte list" bool
  | Sent channel json
  | SendFailed channel json exn

text \<open>
  The outcomes of the external calls one request meets, by call site:
  \<^item> \<open>discover\<close>: \<^verbatim>\<open>BleakScanner.discover\<close> (line 45), the items of the dict it returns;
  \<^item> \<open>teardown_disconnect\<close>: \<^verbatim>\<open>client.disconnect()\<close> (line 133) reached from line 59;
  \<^item> \<open>client_connect\<close>: \<^verbatim>\<open>client.connect()\<close> (line 62), with \<^verbatim>\<open>client.is_connected\<close>
    after it returned;
  \<^item> \<open>client_services\<close>: \<^verbatim>\<open>client.services\<close> (line 68);
  \<^item> \<open>cleanup_disconnect\<close>: \<^verbatim>\<open>client.disconnect()\<close> (line 133) reached from line 77;
  \<^item> \<open>notify_subscribe\<close>, \<open>write_subscribe\<close>: \<^verbatim>\<open>start_notify\<close> (lines 87 and 88);
  \<^item> \<open>request_disconnect\<close>: \<^verbatim>\<open>client.disconnect()\<close> (line 133) reached from line 251;
  \<^item> \<open>write_gatt_char\<close>: line 149;
  \<^item> \<open>send_json\<close>: \<^verbatim>\<open>websocket.send_json\<close> on a channel, for a frame.
\<close>

record env =
  discover :: "exn + (string \<times> ble_device \<times> adv_data option) list"
  teardown_disconnect :: "exn + unit"
  client_connect :: "exn + bool"
  client_services :: "gatt_service list"
  cleanup_disconnect :: "exn + unit"
  notify_subscribe :: "exn + unit"
  write_subscribe :: "exn + unit"
  request_disconnect :: "exn + unit"
  write_gatt_char :: "exn + unit"
  send_json :: "channel \<Rightarrow> json \<Rightarrow> exn + unit"

section \<open>The relay\<close>

definition SERVICE_UUID :: string where
  "SERVICE_UUID = ''E4DADA34-0867-8783-9F70-2CA29216C7E4''"

definition NOTIFY_CHAR_UUID :: string where
  "NOTIFY_CHAR_UUID = ''55CA1E52-7354-25DE-6AFC-B7DF1E8816AC''"

definition WRITE_CHAR_UUID :: string where
  "WRITE_CHAR_UUID = ''A010891D-F50F-44F0-901F-9A2421A9E050''"

definition DEVICE_NAME_PREFIX :: string where
  "DEVICE_NAME_PREFIX = ''VTR-''"

text \<open>The fields of \<^verbatim>\<open>BLERelay\<close>; \<open>connected_device\<close> is \<open>JNull\<close> or the dict of line 81.\<close>

record BLERelay =
  client :: "ble_client option"
  websocket :: "channel option"
  write_char :: "gatt_char option"
  notify_char :: "gatt_char option"
  connected_device :: json

definition BLERelay_init :: BLERelay where
  "BLERelay_init =
     \<lparr>client = None, websocket = None, write_char = None, notify_char = None,
      connected_device = JNull\<rparr>"

text \<open>The property \<^verbatim>\<open>is_connected\<close>, also written \<^verbatim>\<open>self.client and self.client.is_connected\<close>.\<close>

definition relay_is_connected :: "BLERelay \<Rightarrow> bool" where
  "relay_is_connected s = (case client s of None \<Rightarrow> False | Some c \<Rightarrow> is_connected c)"

definition get_status :: "BLERelay \<Rightarrow> (string \<times> json) list" where
  "get_status s = [(''connected'', JBool (relay_is_connected s)), (''device'', connected_device s)]"

subsection \<open>scan\<close>

definition name_matches :: "ble_device \<Rightarrow> bool" where
  "name_matches device =
     (case dev_name device of
        None \<Rightarrow> False
      | Some n \<Rightarrow> n \<noteq> [] \<and> startswith n DEVICE_NAME_PREFIX)"

definition opt_str :: "string option \<Rightarrow> json" where
  "opt_str x = (case x of None \<Rightarrow> JNull | Some n \<Rightarrow> JStr n)"

definition scan_record :: "ble_device \<Rightarrow> adv_data option \<Rightarrow> json" where
  "scan_record device adv =
     JObj [(''id'', JStr (dev_address device)),
           (''name'', opt_str (dev_name device)),
           (''rssi'', (case adv of None \<Rightarrow> JNull | Some a \<Rightarrow> JNum (rssi a)))]"

fun scan_loop :: "(string \<times> ble_device \<times> adv_data option) list \<Rightarrow> json list \<Rightarrow> json list" where
  "scan_loop [] results = results"
| "scan_loop ((addr, device, adv) # rest) results =
     scan_loop rest
       (if name_matches device then results @ [scan_record device adv] else results)"

definition scan :: "env \<Rightarrow> json \<Rightarrow> (exn + json) \<times> event list" where
  "scan env timeout =
     (case discover env of
        Inl e \<Rightarrow> (Inl e, [Discover timeout])
      | Inr devices \<Rightarrow> (Inr (JArr (scan_loop devices [])), [Discover timeout]))"

subsection \<open>Pushing to the attached channel\<close>

text \<open>
  \<^verbatim>\<open>_send_ws\<close> (lines 121 to 127): nothing without an attached channel; an exception
  of \<^verbatim>\<open>send_json\<close> is printed and swallowed.
\<close>

definition send_ws :: "env \<Rightarrow> BLERelay \<Rightarrow> json \<Rightarrow> event list" where
  "send_ws env s msg =
     (case websocket s of
        None \<Rightarrow> []
      | Some ws \<Rightarrow>
          (case send_json env ws msg of
             Inr u \<Rightarrow> [Sent ws msg]
           | Inl e \<Rightarrow> [SendFailed ws msg e]))"

subsection \<open>disconnect\<close>

text \<open>
  \<^verbatim>\<open>disconnect\<close> (lines 129 to 142); \<open>r\<close> is the outcome of \<^verbatim>\<open>client.disconnect()\<close>
  should line 133 be reached. The call is awaited outside any \<^verbatim>\<open>try\<close>: when it
  raises, the lines after it do not run, and the relay is as it was (the client still
  reports \<^verbatim>\<open>is_connected\<close>).
\<close>

definition disconnect :: "env \<Rightarrow> exn + unit \<Rightarrow> BLERelay \<Rightarrow> (exn + unit) \<times> BLERelay \<times> event list" where
  "disconnect env r s =
     (let device = connected_device s;
          calls = (case client s of
                     None \<Rightarrow> []
                   | Some c \<Rightarrow> if is_connected c then [ClientDisconnect (address c)] else [])
      in case (if relay_is_connected s then r else Inr ()) of
           Inl e \<Rightarrow> (Inl e, s, calls)
         | Inr u \<Rightarrow>
             (let s' = s\<lparr>client := None, write_char := None, notify_char := None,
                         connected_device := JNull\<rparr>
              in (Inr (), s',
                  calls @ send_ws env s' (JObj [(''type'', JStr ''disconnected''),
                                                (''device'', device)]))))"

subsection \<open>The unexpected-disconnect callback\<close>

text \<open>
  \<^verbatim>\<open>_on_disconnect\<close> (lines 96 to 108) returns the new state and the frames whose
  \<^verbatim>\<open>_send_ws\<close> coroutine it hands to \<^verbatim>\<open>asyncio.create_task\<close>; \<open>run_task\<close> is that
  coroutine running, in the state it finds then.
\<close>

definition on_disconnect :: "BLERelay \<Rightarrow> BLERelay \<times> json list" where
  "on_disconnect s =
     (let s1 = s\<lparr>client := None, write_char := None, notify_char := None\<rparr>;
          device = connected_device s1;
          s2 = s1\<lparr>connected_device := JNull\<rparr>
      in (s2,
          case websocket s2 of
            None \<Rightarrow> []
          | Some ws \<Rightarrow> [JObj [(''type'', JStr ''disconnected''), (''device'', device),
                               (''unexpected'', JBool True)]]))"

definition run_task :: "env \<Rightarrow> BLERelay \<Rightarrow> json \<Rightarrow> event list" where
  "run_task env s msg = send_ws env s msg"

subsection \<open>connect\<close>

text \<open>The two loops of lines 68 to 74; a later match overwrites an earlier one.\<close>

fun char_loop :: "gatt_char list \<Rightarrow> BLERelay \<Rightarrow> BLERelay" where
  "char_loop [] s = s"
| "char_loop (ch # rest) s =
     char_loop rest
       (if lower (char_uuid ch) = lower WRITE_CHAR_UUID then s\<lparr>write_char := Some ch\<rparr>
        else if lower (char_uuid ch) = lower NOTIFY_CHAR_UUID then s\<lparr>notify_char := Some ch\<rparr>
        else s)"

fun service_loop :: "gatt_service list \<Rightarrow> BLERelay \<Rightarrow> BLERelay" where
  "service_loop [] s = s"
| "service_loop (svc # rest) s =
     service_loop rest
       (if lower (svc_uuid svc) = lower SERVICE_UUID then char_loop (characteristics svc) s
        else s)"

text \<open>Lines 67 to 94, on an established link.\<close>

definition connect_established ::
  "env \<Rightarrow> json \<Rightarrow> json \<Rightarrow> BLERelay \<Rightarrow> (exn + unit) \<times> BLERelay \<times> event list" where
  "connect_established env device_id device_name s =
     (let s1 = service_loop (client_services env) s in
      case write_char s1 of
        None \<Rightarrow>
          (case disconnect env (cleanup_disconnect env) s1 of
             (Inl e, s2, t) \<Rightarrow> (Inl e, s2, t)
           | (Inr u, s2, t) \<Rightarrow>
               (Inl (Exn ConnectionError ''Required characteristics not found''), s2, t))
      | Some w \<Rightarrow>
          (case notify_char s1 of
             None \<Rightarrow>
               (case disconnect env (cleanup_disconnect env) s1 of
                  (Inl e, s2, t) \<Rightarrow> (Inl e, s2, t)
                | (Inr u, s2, t) \<Rightarrow>
                    (Inl (Exn ConnectionError ''Required characteristics not found''), s2, t))
           | Some n \<Rightarrow>
               (let s2 = s1\<lparr>connected_device :=
                               JObj [(''id'', device_id),
                                     (''name'', py_or device_name device_id)]\<rparr>
                in case notify_subscribe env of
                     Inl e \<Rightarrow> (Inl e, s2, [StartNotify n])
                   | Inr u \<Rightarrow>
                       (case write_subscribe env of
                          Inl e \<Rightarrow> (Inl e, s2, [StartNotify n, StartNotify w])
                        | Inr u \<Rightarrow>
                            (Inr (), s2,
                             [StartNotify n, StartNotify w] @
                             send_ws env s2 (JObj [(''type'', JStr ''connected''),
                                                   (''device'', connected_device s2)]))))))"

text \<open>
  Lines 61 to 94: the new client is stored before its \<^verbatim>\<open>connect()\<close> is awaited. A
  client that has not connected, or whose \<^verbatim>\<open>connect()\<close> raised, reports
  \<^verbatim>\<open>is_connected\<close> false.
\<close>

definition connect_open ::
  "env \<Rightarrow> json \<Rightarrow> json \<Rightarrow> BLERelay \<Rightarrow> (exn + unit) \<times> BLERelay \<times> event list" where
  "connect_open env device_id device_name s =
     (let s1 = s\<lparr>client := Some \<lparr>address = device_id, is_connected = False\<rparr>\<rparr> in
      case client_connect env of
        Inl e \<Rightarrow> (Inl e, s1, [ClientConnect device_id])
      | Inr linked \<Rightarrow>
          (let s2 = s1\<lparr>client := Some \<lparr>address = device_id, is_connected = linked\<rparr>\<rparr> in
           if \<not> linked
           then (Inl (Exn ConnectionError ''Failed to connect''), s2, [ClientConnect device_id])
           else (case connect_established env device_id device_name s2 of
                   (r, s3, t) \<Rightarrow> (r, s3, ClientConnect device_id # t))))"

text \<open>\<^verbatim>\<open>connect\<close> (lines 56 to 94): line 59 is awaited outside any \<^verbatim>\<open>try\<close>.\<close>

definition connect ::
  "env \<Rightarrow> json \<Rightarrow> json \<Rightarrow> BLERelay \<Rightarrow> (exn + unit) \<times> BLERelay \<times> event list" where
  "connect env device_id device_name s =
     (if relay_is_connected s
      then (case disconnect env (teardown_disconnect env) s of
              (Inl e, s1, t) \<Rightarrow> (Inl e, s1, t)
            | (Inr u, s1, t) \<Rightarrow>
                (case connect_open env device_id device_name s1 of
                   (r, s2, t') \<Rightarrow> (r, s2, t @ t')))
      else connect_open env device_id device_name s)"

subsection \<open>write\<close>

text \<open>\<^verbatim>\<open>write\<close> (lines 144 to 149); the outcome of line 149 is the outcome of the call.\<close>

definition relay_write :: "env \<Rightarrow> byte list \<Rightarrow> BLERelay \<Rightarrow> (exn + unit) \<times> event list" where
  "relay_write env data s =
     (if \<not> relay_is_connected s then (Inl (Exn ConnectionError ''Not connected''), [])
      else (write_gatt_char env, [WriteGattChar (write_char s) data True]))"

section \<open>The dispatcher\<close>

text \<open>
  The body of the inner \<^verbatim>\<open>try\<close> up to the result (lines 238 to 264), on the dict
  \<open>msg\<close> of the request.
\<close>

definition run_action ::
  "env \<Rightarrow> (string \<times> json) list \<Rightarrow> BLERelay \<Rightarrow> (exn + json) \<times> BLERelay \<times> event list" where
  "run_action env msg s =
     (let action = dict_get msg ''action'' in
      if action = JStr ''scan'' then
        (case scan env (dict_get_default msg ''timeout'' (JNum 5)) of (r, t) \<Rightarrow> (r, s, t))
      else if action = JStr ''connect'' then
        (case dict_item msg ''device_id'' of
           Inl e \<Rightarrow> (Inl e, s, [])
         | Inr device_id \<Rightarrow>
             (case connect env device_id (dict_get msg ''device_name'') s of
                (Inl e, s', t) \<Rightarrow> (Inl e, s', t)
              | (Inr u, s', t) \<Rightarrow>
                  (Inr (JObj [(''status'', JStr ''connected''),
                              (''device'', connected_device s')]), s', t)))
      else if action = JStr ''disconnect'' then
        (case disconnect env (request_disconnect env) s of
           (Inl e, s', t) \<Rightarrow> (Inl e, s', t)
         | (Inr u, s', t) \<Rightarrow> (Inr (JObj [(''status'', JStr ''disconnected'')]), s', t))
      else if action = JStr ''write'' then
        (case dict_item msg ''data'' of
           Inl e \<Rightarrow> (Inl e, s, [])
         | Inr hex_data \<Rightarrow>
             (case fromhex hex_data of
                Inl e \<Rightarrow> (Inl e, s, [])
              | Inr data_bytes \<Rightarrow>
                  (case relay_write env data_bytes s of
                     (Inl e, t) \<Rightarrow> (Inl e, s, t)
                   | (Inr u, t) \<Rightarrow> (Inr (JObj [(''status'', JStr ''ok'')]), s, t))))
      else if action = JStr ''status'' then (Inr (JObj (get_status s)), s, [])
      else (Inl (Exn ValueError (''Unknown action: '' @ py_str action)), s, []))"

text \<open>How the \<^verbatim>\<open>while\<close> loop of lines 230 to 276 stands after a step.\<close>

datatype loop_status =
    Running
  | Closed
  | Crashed exn

text \<open>
  An exception leaving the loop: line 278 catches \<^verbatim>\<open>WebSocketDisconnect\<close>, anything
  else leaves \<^verbatim>\<open>websocket_endpoint\<close>.
\<close>

definition raised :: "exn \<Rightarrow> loop_status" where
  "raised e = (if exn_class_of e = WebSocketDisconnect then Closed else Crashed e)"

text \<open>\<^verbatim>\<open>websocket.send_json\<close> called by the endpoint itself.\<close>

definition ws_send :: "env \<Rightarrow> channel \<Rightarrow> json \<Rightarrow> (exn + unit) \<times> event list" where
  "ws_send env ws frame =
     (case send_json env ws frame of
        Inl e \<Rightarrow> (Inl e, [SendFailed ws frame e])
      | Inr u \<Rightarrow> (Inr (), [Sent ws frame]))"

text \<open>The handler of lines 270 to 276.\<close>

definition report_error :: "env \<Rightarrow> channel \<Rightarrow> json \<Rightarrow> exn \<Rightarrow> loop_status \<times> event list" where
  "report_error env ws msg_id e =
     (let error_msg = str_exn e;
          frame = (if truthy msg_id
                   then JObj [(''id'', msg_id), (''error'', JStr error_msg)]
                   else JObj [(''type'', JStr ''error''), (''error'', JStr error_msg)])
      in case ws_send env ws frame of
           (Inl e', t) \<Rightarrow> (raised e', t)
         | (Inr u, t) \<Rightarrow> (Running, t))"

text \<open>
  Lines 234 to 276 on the value \<^verbatim>\<open>json.loads\<close> returned. \<^verbatim>\<open>msg.get\<close> (lines 234
  and 235) is outside the inner \<^verbatim>\<open>try\<close>: on a value that is no dict it raises
  \<^verbatim>\<open>AttributeError\<close> out of the loop.
\<close>

definition handle_message ::
  "env \<Rightarrow> channel \<Rightarrow> json \<Rightarrow> BLERelay \<Rightarrow> loop_status \<times> BLERelay \<times> event list" where
  "handle_message env ws msg s =
     (case msg of
        JObj d \<Rightarrow>
          (let msg_id = dict_get d ''id'' in
           case run_action env d s of
             (Inl e, s', t) \<Rightarrow>
               (case report_error env ws msg_id e of (st, t') \<Rightarrow> (st, s', t @ t'))
           | (Inr result, s', t) \<Rightarrow>
               if truthy msg_id
               then (case ws_send env ws (JObj [(''id'', msg_id), (''data'', result)]) of
                       (Inl e, t') \<Rightarrow>
                         (case report_error env ws msg_id e of
                            (st, t'') \<Rightarrow> (st, s', t @ t' @ t''))
                     | (Inr u, t') \<Rightarrow> (Running, s', t @ t'))
               else (Running, s', t))
      | _ \<Rightarrow>
          (Crashed (Exn AttributeError
                      (quote (type_name msg) @ '' object has no attribute '' @ quote ''get'')),
           s, []))"

text \<open>
  What one turn of the loop receives: \<^verbatim>\<open>receive_text\<close> raises, or returns a text
  that \<^verbatim>\<open>json.loads\<close> (line 232, outside the inner \<^verbatim>\<open>try\<close>) rejects with the
  given message or parses to the given value.
\<close>

datatype inbound =
    ReceiveRaises exn
  | Unparseable string
  | Parsed json

definition loop_iteration ::
  "env \<Rightarrow> channel \<Rightarrow> inbound \<Rightarrow> BLERelay \<Rightarrow> loop_status \<times> BLERelay \<times> event list" where
  "loop_iteration env ws frame s =
     (case frame of
        ReceiveRaises e \<Rightarrow> (raised e, s, [])
      | Unparseable m \<Rightarrow> (raised (Exn JSONDecodeError m), s, [])
      | Parsed msg \<Rightarrow> handle_message env ws msg s)"

text \<open>
  The loop on the frames received so far, each with the outcomes its request meets;
  \<open>Running\<close> at the end of the list is the loop waiting in \<^verbatim>\<open>receive_text\<close>.
\<close>

fun receive_loop ::
  "channel \<Rightarrow> (env \<times> inbound) list \<Rightarrow> BLERelay \<Rightarrow> loop_status \<times> BLERelay \<times> event list" where
  "receive_loop ws [] s = (Running, s, [])"
| "receive_loop ws ((env, frame) # rest) s =
     (case loop_iteration env ws frame s of
        (Running, s', t) \<Rightarrow>
          (case receive_loop ws rest s' of (st, s'', t') \<Rightarrow> (st, s'', t @ t'))
      | (st, s', t) \<Rightarrow> (st, s', t))"

text \<open>
  \<^verbatim>\<open>websocket_endpoint\<close> in two parts. Lines 220 to 226: the channel is accepted,
  stored in \<^verbatim>\<open>relay.websocket\<close> and sent the status. Lines 229 to 281: the loop, and
  \<^verbatim>\<open>finally: relay.websocket = None\<close> once it is left.
\<close>

definition endpoint_open ::
  "env \<Rightarrow> channel \<Rightarrow> BLERelay \<Rightarrow> (exn + unit) \<times> BLERelay \<times> event list" where
  "endpoint_open env ws s =
     (let s1 = s\<lparr>websocket := Some ws\<rparr> in
      case ws_send env ws (JObj ((''type'', JStr ''status'') # get_status s1)) of
        (r, t) \<Rightarrow> (r, s1, t))"

definition endpoint_serve ::
  "channel \<Rightarrow> (env \<times> inbound) list \<Rightarrow> BLERelay \<Rightarrow> loop_status \<times> BLERelay \<times> event list" where
  "endpoint_serve ws script s =
     (case receive_loop ws script s of
        (Running, s', t) \<Rightarrow> (Running, s', t)
      | (st, s', t) \<Rightarrow> (st, s'\<lparr>websocket := None\<rparr>, t))"

section \<open>Reading a trace\<close>

text \<open>The \<^verbatim>\<open>send_json\<close> calls of a trace, and those that returned.\<close>

fun send_calls :: "event list \<Rightarrow> (channel \<times> json) list" where
  "send_calls [] = []"
| "send_calls (Sent ws frame # t) = (ws, frame) # send_calls t"
| "send_calls (SendFailed ws frame e # t) = (ws, frame) # send_calls t"
| "send_calls (ev # t) = send_calls t"

fun delivered :: "event list \<Rightarrow> (channel \<times> json) list" where
  "delivered [] = []"
| "delivered (Sent ws frame # t) = (ws, frame) # delivered t"
| "delivered (ev # t) = delivered t"

text \<open>A frame that carries a correlation id: a dict with the key \<^verbatim>\<open>id\<close>.\<close>

fun has_id :: "json \<Rightarrow> bool" where
  "has_id (JObj d) = (map_of d ''id'' \<noteq> None)"
| "has_id v = False"

text \<open>The calls the relay made on the device transport.\<close>

fun transport_calls :: "event list \<Rightarrow> event list" where
  "transport_calls [] = []"
| "transport_calls (Sent ws frame # t) = transport_calls t"
| "transport_calls (SendFailed ws frame e # t) = transport_calls t"
| "transport_calls (ev # t) = ev # transport_calls t"

text \<open>
  The specification's wording of the scan filter (a display name that starts with the
  product prefix) and of a device exposing a characteristic of the relay's service.
\<close>

definition carries_prefix :: "string \<times> ble_device \<times> adv_data option \<Rightarrow> bool" where
  "carries_prefix entry =
     (case dev_name (fst (snd entry)) of
        None \<Rightarrow> False
      | Some n \<Rightarrow> startswith n DEVICE_NAME_PREFIX)"

definition record_of :: "string \<times> ble_device \<times> adv_data option \<Rightarrow> json" where
  "record_of entry =
     JObj [(''id'', JStr (dev_address (fst (snd entry)))),
           (''name'', opt_str (dev_name (fst (snd entry)))),
           (''rssi'', (case snd (snd entry) of None \<Rightarrow> JNull | Some a \<Rightarrow> JNum (rssi a)))]"

definition exposes :: "gatt_service list \<Rightarrow> string \<Rightarrow> bool" where
  "exposes services u =
     list_ex (\<lambda>svc. lower (svc_uuid svc) = lower SERVICE_UUID \<and>
                    list_ex (\<lambda>ch. lower (char_uuid ch) = lower u) (characteristics svc))
             services"

text \<open>
  A relay that is not connected holds no cached characteristic and no device record.
  The relay starts so, and \<open>connect\<close>, \<open>disconnect\<close> and the callback keep it so.
\<close>

definition consistent :: "BLERelay \<Rightarrow> bool" where
  "consistent s =
     (relay_is_connected s \<or>
      (write_char s = None \<and> notify_char s = None \<and> connected_device s = JNull))"


section \<open>Example transports and states\<close>

text \<open>A channel that accepts every frame, and the device of the test fixtures.\<close>

definition accepting :: "channel \<Rightarrow> json \<Rightarrow> exn + unit" where
  "accepting ws frame = Inr ()"

definition test_write_char :: gatt_char where
  "test_write_char = \<lparr>char_uuid = ''a010891d-f50f-44f0-901f-9a2421a9e050'', char_handle = 1\<rparr>"

definition test_notify_char :: gatt_char where
  "test_notify_char = \<lparr>char_uuid = ''55ca1e52-7354-25de-6afc-b7df1e8816ac'', char_handle = 2\<rparr>"

definition test_services :: "gatt_service list" where
  "test_services =
     [\<lparr>svc_uuid = ''e4dada34-0867-8783-9f70-2ca29216c7e4'',
       characteristics = [test_write_char, test_notify_char]\<rparr>]"

definition notify_only_services :: "gatt_service list" where
  "notify_only_services =
     [\<lparr>svc_uuid = ''e4dada34-0867-8783-9f70-2ca29216c7e4'',
       characteristics = [test_notify_char]\<rparr>]"

definition test_devices :: "(string \<times> ble_device \<times> adv_data option) list" where
  "test_devices =
     [(''AA:BB:CC:DD:EE:FF'',
       \<lparr>dev_address = ''AA:BB:CC:DD:EE:FF'', dev_name = Some ''VTR-12345''\<rparr>,
       Some \<lparr>rssi = - 50\<rparr>),
      (''11:22:33:44:55:66'',
       \<lparr>dev_address = ''11:22:33:44:55:66'', dev_name = Some ''Other Device''\<rparr>,
       None)]"

definition env_ok :: env where
  "env_ok =
     \<lparr>discover = Inr test_devices, teardown_disconnect = Inr (), client_connect = Inr True,
      client_services = test_services, cleanup_disconnect = Inr (),
      notify_subscribe = Inr (), write_subscribe = Inr (), request_disconnect = Inr (),
      write_gatt_char = Inr (), send_json = accepting\<rparr>"

definition link_lost :: exn where
  "link_lost = Exn TransportError ''link lost''"

text \<open>The relay connected to the fixture device, with channel 1 attached.\<close>

definition connected_relay :: BLERelay where
  "connected_relay =
     \<lparr>client = Some \<lparr>address = JStr ''AA:BB:CC:DD:EE:FF'', is_connected = True\<rparr>,
      websocket = Some 1,
      write_char = Some test_write_char,
      notify_char = Some test_notify_char,
      connected_device = JObj [(''id'', JStr ''AA:BB:CC:DD:EE:FF''),
                               (''name'', JStr ''VTR-TEST'')]\<rparr>"

text \<open>
  The relay after a \<open>connect\<close> to a device without the write characteristic whose
  clean-up \<^verbatim>\<open>client.disconnect()\<close> raised.
\<close>

definition half_connected_relay :: BLERelay where
  "half_connected_relay =
     \<lparr>client = Some \<lparr>address = JStr ''AA:BB:CC:DD:EE:FF'', is_connected = True\<rparr>,
      websocket = None, write_char = None, notify_char = Some test_notify_char,
      connected_device = JNull\<rparr>"


section \<open>Properties\<close>

subsection \<open>Helper lemmas\<close>

lemma char_loop_keeps [simp]:
  "client (char_loop chs s) = client s"
  "websocket (char_loop chs s) = websocket s"
  "connected_device (char_loop chs s) = connected_device s"
  by (induction chs arbitrary: s) auto

lemma service_loop_keeps [simp]:
  "client (service_loop svcs s) = client s"
  "websocket (service_loop svcs s) = websocket s"
  "connected_device (service_loop svcs s) = connected_device s"
  by (induction svcs arbitrary: s) auto

lemma send_calls_append [simp]: "send_calls (a @ b) = send_calls a @ send_calls b"
  by (induction a rule: send_calls.induct) auto

lemma send_calls_send_ws:
  "send_calls (send_ws env s msg) = (case websocket s of None \<Rightarrow> [] | Some ws \<Rightarrow> [(ws, msg)])"
  by (simp add: send_ws_def split: option.splits sum.splits)

lemma disconnect_success:
  "disconnect env r s = (Inr u, s', t) \<Longrightarrow>
     s' = s\<lparr>client := None, write_char := None, notify_char := None,
            connected_device := JNull\<rparr> \<and>
     send_calls t =
       (case websocket s of
          None \<Rightarrow> []
        | Some ws \<Rightarrow> [(ws, JObj [(''type'', JStr ''disconnected''),
                                  (''device'', connected_device s)])])"
  by (auto simp: disconnect_def Let_def send_calls_send_ws
      split: sum.splits if_splits option.splits)

lemma connect_established_success:
  "connect_established env device_id device_name s = (Inr (), s', t) \<Longrightarrow>
     connected_device s' = JObj [(''id'', device_id), (''name'', py_or device_name device_id)] \<and>
     client s' = client s \<and> websocket s' = websocket s \<and>
     send_calls t =
       (case websocket s of
          None \<Rightarrow> []
        | Some ws \<Rightarrow>
            [(ws, JObj [(''type'', JStr ''connected''),
                        (''device'', JObj [(''id'', device_id),
                                           (''name'', py_or device_name device_id)])])])"
  by (auto simp: connect_established_def Let_def send_calls_send_ws
      split: option.splits sum.splits prod.splits)

lemma connect_open_success:
  "connect_open env device_id device_name s = (Inr (), s', t) \<Longrightarrow>
     connected_device s' = JObj [(''id'', device_id), (''name'', py_or device_name device_id)] \<and>
     client s' = Some \<lparr>address = device_id, is_connected = True\<rparr> \<and>
     websocket s' = websocket s \<and>
     send_calls t =
       (case websocket s of
          None \<Rightarrow> []
        | Some ws \<Rightarrow>
            [(ws, JObj [(''type'', JStr ''connected''),
                        (''device'', JObj [(''id'', device_id),
                                           (''name'', py_or device_name device_id)])])])"
  by (auto simp: connect_open_def Let_def
      split: option.splits sum.splits prod.splits if_splits
      dest!: connect_established_success)

lemma connect_success:
  "connect env device_id device_name s = (Inr (), s', t) \<Longrightarrow>
     connected_device s' = JObj [(''id'', device_id), (''name'', py_or device_name device_id)] \<and>
     client s' = Some \<lparr>address = device_id, is_connected = True\<rparr> \<and>
     websocket s' = websocket s \<and>
     (\<forall>ws. websocket s = Some ws \<longrightarrow>
        last (send_calls t) =
          (ws, JObj [(''type'', JStr ''connected''),
                     (''device'', JObj [(''id'', device_id),
                                        (''name'', py_or device_name device_id)])]))"
  by (auto simp: connect_def Let_def
      split: option.splits sum.splits prod.splits if_splits
      dest!: connect_open_success disconnect_success)

lemma scan_loop_append:
  "scan_loop devices results = results @ map record_of (filter carries_prefix devices)"
proof (induction devices arbitrary: results)
  case Nil
  show ?case by simp
next
  case (Cons entry rest)
  obtain addr device adv where e: "entry = (addr, device, adv)"
    by (cases entry) auto
  have m: "name_matches device = carries_prefix entry"
    by (auto simp: e name_matches_def carries_prefix_def startswith_def DEVICE_NAME_PREFIX_def
        split: option.splits)
  have r: "scan_record device adv = record_of entry"
    by (simp add: e scan_record_def record_of_def)
  show ?case
    by (simp add: e Cons.IH m [unfolded e] r [unfolded e])
qed

lemma uuids_differ: "lower WRITE_CHAR_UUID \<noteq> lower NOTIFY_CHAR_UUID"
  by (simp add: lower_def lower_char_def WRITE_CHAR_UUID_def NOTIFY_CHAR_UUID_def)

lemma char_loop_write_none:
  "write_char (char_loop chs s) = None \<longleftrightarrow>
     write_char s = None \<and> \<not> list_ex (\<lambda>ch. lower (char_uuid ch) = lower WRITE_CHAR_UUID) chs"
  by (induction chs arbitrary: s) auto

lemma char_loop_notify_none:
  "notify_char (char_loop chs s) = None \<longleftrightarrow>
     notify_char s = None \<and> \<not> list_ex (\<lambda>ch. lower (char_uuid ch) = lower NOTIFY_CHAR_UUID) chs"
  using uuids_differ by (induction chs arbitrary: s) auto

lemma service_loop_write_none:
  "write_char (service_loop svcs s) = None \<longleftrightarrow>
     write_char s = None \<and> \<not> exposes svcs WRITE_CHAR_UUID"
  by (induction svcs arbitrary: s) (auto simp: exposes_def char_loop_write_none)

lemma service_loop_notify_none:
  "notify_char (service_loop svcs s) = None \<longleftrightarrow>
     notify_char s = None \<and> \<not> exposes svcs NOTIFY_CHAR_UUID"
  by (induction svcs arbitrary: s) (auto simp: exposes_def char_loop_notify_none)

lemma transport_calls_append [simp]:
  "transport_calls (a @ b) = transport_calls a @ transport_calls b"
  by (induction a rule: transport_calls.induct) auto

lemma transport_calls_send_ws [simp]: "transport_calls (send_ws env s msg) = []"
  by (simp add: send_ws_def split: option.splits sum.splits)

lemma char_loop_frame:
  "char_loop chs s =
     s\<lparr>write_char := write_char (char_loop chs s), notify_char := notify_char (char_loop chs s)\<rparr>"
  by (induction chs arbitrary: s) auto

lemma service_loop_frame:
  "service_loop svcs s =
     s\<lparr>write_char := write_char (service_loop svcs s),
       notify_char := notify_char (service_loop svcs s)\<rparr>"
proof (induction svcs arbitrary: s)
  case Nil
  show ?case by simp
next
  case (Cons svc rest)
  show ?case
  proof (cases "lower (svc_uuid svc) = lower SERVICE_UUID")
    case True
    have "service_loop (svc # rest) s = service_loop rest (char_loop (characteristics svc) s)"
      using True by simp
    also have "\<dots> = (char_loop (characteristics svc) s)
        \<lparr>write_char := write_char (service_loop rest (char_loop (characteristics svc) s)),
         notify_char := notify_char (service_loop rest (char_loop (characteristics svc) s))\<rparr>"
      by (rule Cons.IH)
    also have "\<dots> = s
        \<lparr>write_char := write_char (service_loop rest (char_loop (characteristics svc) s)),
         notify_char := notify_char (service_loop rest (char_loop (characteristics svc) s))\<rparr>"
      by (subst char_loop_frame) simp
    finally show ?thesis using True by simp
  next
    case False
    then show ?thesis using Cons.IH [of s] by simp
  qed
qed

lemma service_loop_cleared:
  "(service_loop svcs s)\<lparr>client := None, write_char := None, notify_char := None,
                           connected_device := JNull\<rparr> =
   s\<lparr>client := None, write_char := None, notify_char := None, connected_device := JNull\<rparr>"
  by (subst service_loop_frame) simp

lemma disconnect_connected:
  assumes "client s = Some c" "is_connected c"
  shows "disconnect env (Inr ()) s =
           (Inr (),
            s\<lparr>client := None, write_char := None, notify_char := None,
              connected_device := JNull\<rparr>,
            ClientDisconnect (address c) #
            send_ws env (s\<lparr>client := None, write_char := None, notify_char := None,
                           connected_device := JNull\<rparr>)
              (JObj [(''type'', JStr ''disconnected''), (''device'', connected_device s)]))"
  using assms by (simp add: disconnect_def Let_def relay_is_connected_def)

lemma connect_established_missing:
  assumes c: "client s = Some c" "is_connected c"
    and w: "write_char s = None" "notify_char s = None"
    and m: "\<not> exposes (client_services env) WRITE_CHAR_UUID \<or>
            \<not> exposes (client_services env) NOTIFY_CHAR_UUID"
    and d: "cleanup_disconnect env = Inr ()"
  shows "connect_established env device_id device_name s =
           (Inl (Exn ConnectionError ''Required characteristics not found''),
            s\<lparr>client := None, write_char := None, notify_char := None,
              connected_device := JNull\<rparr>,
            ClientDisconnect (address c) #
            send_ws env (s\<lparr>client := None, write_char := None, notify_char := None,
                           connected_device := JNull\<rparr>)
              (JObj [(''type'', JStr ''disconnected''), (''device'', connected_device s)]))"
proof -
  let ?s1 = "service_loop (client_services env) s"
  have c1: "client ?s1 = Some c" using c by simp
  have dis: "disconnect env (cleanup_disconnect env) ?s1 =
           (Inr (),
            s\<lparr>client := None, write_char := None, notify_char := None,
              connected_device := JNull\<rparr>,
            ClientDisconnect (address c) #
            send_ws env (s\<lparr>client := None, write_char := None, notify_char := None,
                           connected_device := JNull\<rparr>)
              (JObj [(''type'', JStr ''disconnected''), (''device'', connected_device s)]))"
    using disconnect_connected [OF c1 c(2), of env] by (simp add: d service_loop_cleared)
  have miss: "write_char ?s1 = None \<or> notify_char ?s1 = None"
    using m w by (simp add: service_loop_write_none service_loop_notify_none)
  show ?thesis
  proof (cases "write_char ?s1")
    case None
    then show ?thesis by (simp add: connect_established_def Let_def dis)
  next
    case (Some wc)
    then have "notify_char ?s1 = None" using miss by simp
    then show ?thesis using Some by (simp add: connect_established_def Let_def dis)
  qed
qed

lemma connect_open_raises:
  "client_connect env = Inl e \<Longrightarrow>
     connect_open env device_id device_name s =
       (Inl e, s\<lparr>client := Some \<lparr>address = device_id, is_connected = False\<rparr>\<rparr>,
        [ClientConnect device_id])"
  by (simp add: connect_open_def)

lemma connect_open_no_link:
  "client_connect env = Inr False \<Longrightarrow>
     connect_open env device_id device_name s =
       (Inl (Exn ConnectionError ''Failed to connect''),
        s\<lparr>client := Some \<lparr>address = device_id, is_connected = False\<rparr>\<rparr>,
        [ClientConnect device_id])"
  by (simp add: connect_open_def)

lemma connect_open_missing:
  assumes w: "write_char s = None" "notify_char s = None"
    and l: "client_connect env = Inr True"
    and m: "\<not> exposes (client_services env) WRITE_CHAR_UUID \<or>
            \<not> exposes (client_services env) NOTIFY_CHAR_UUID"
    and d: "cleanup_disconnect env = Inr ()"
  shows "connect_open env device_id device_name s =
           (Inl (Exn ConnectionError ''Required characteristics not found''),
            s\<lparr>client := None, write_char := None, notify_char := None,
              connected_device := JNull\<rparr>,
            ClientConnect device_id # ClientDisconnect device_id #
            send_ws env (s\<lparr>client := None, write_char := None, notify_char := None,
                           connected_device := JNull\<rparr>)
              (JObj [(''type'', JStr ''disconnected''), (''device'', connected_device s)]))"
proof -
  let ?s2 = "s\<lparr>client := Some \<lparr>address = device_id, is_connected = True\<rparr>\<rparr>"
  have "connect_established env device_id device_name ?s2 =
           (Inl (Exn ConnectionError ''Required characteristics not found''),
            ?s2\<lparr>client := None, write_char := None, notify_char := None,
              connected_device := JNull\<rparr>,
            ClientDisconnect (address \<lparr>address = device_id, is_connected = True\<rparr>) #
            send_ws env (?s2\<lparr>client := None, write_char := None, notify_char := None,
                           connected_device := JNull\<rparr>)
              (JObj [(''type'', JStr ''disconnected''), (''device'', connected_device ?s2)]))"
    by (rule connect_established_missing [OF _ _ _ _ m d]) (simp_all add: w)
  then show ?thesis
    by (simp add: connect_open_def l)
qed

lemma connect_open_trace_head:
  "\<exists>rest. snd (snd (connect_open env device_id device_name s)) = ClientConnect device_id # rest"
  by (auto simp: connect_open_def Let_def split: sum.splits prod.splits)

lemma delivered_append [simp]: "delivered (a @ b) = delivered a @ delivered b"
  by (induction a rule: delivered.induct) auto

lemma delivered_no_id:
  "filter (\<lambda>c. has_id (snd c)) (send_calls t) = [] \<Longrightarrow>
   filter (\<lambda>c. has_id (snd c)) (delivered t) = []"
  by (induction t rule: send_calls.induct) (auto split: if_splits)

lemma send_ws_no_id:
  "\<not> has_id msg \<Longrightarrow> filter (\<lambda>c. has_id (snd c)) (send_calls (send_ws env s msg)) = []"
  by (simp add: send_calls_send_ws split: option.splits)

lemma disconnect_no_id:
  "filter (\<lambda>c. has_id (snd c)) (send_calls (snd (snd (disconnect env r s)))) = []"
  by (simp add: disconnect_def Let_def send_ws_no_id split: sum.splits option.splits)

lemma connect_established_no_id:
  "filter (\<lambda>c. has_id (snd c))
     (send_calls (snd (snd (connect_established env device_id device_name s)))) = []"
  using disconnect_no_id [of env "cleanup_disconnect env" "service_loop (client_services env) s"]
  by (auto simp: connect_established_def Let_def send_ws_no_id
      split: sum.splits option.splits prod.splits)

lemma connect_open_no_id:
  "filter (\<lambda>c. has_id (snd c))
     (send_calls (snd (snd (connect_open env device_id device_name s)))) = []"
  using connect_established_no_id [of env device_id device_name
      "s\<lparr>client := Some \<lparr>address = device_id, is_connected = True\<rparr>\<rparr>"]
  by (auto simp: connect_open_def Let_def split: sum.splits prod.splits)

lemma connect_no_id:
  "filter (\<lambda>c. has_id (snd c))
     (send_calls (snd (snd (connect env device_id device_name s)))) = []"
proof (cases "relay_is_connected s")
  case False
  then show ?thesis by (simp add: connect_def connect_open_no_id)
next
  case True
  obtain r s1 t where d: "disconnect env (teardown_disconnect env) s = (r, s1, t)"
    by (cases "disconnect env (teardown_disconnect env) s") auto
  have t: "filter (\<lambda>c. has_id (snd c)) (send_calls t) = []"
    using disconnect_no_id [of env "teardown_disconnect env" s] by (simp add: d)
  show ?thesis
    using True t connect_open_no_id [of env device_id device_name s1]
    by (auto simp: connect_def d split: sum.splits prod.splits)
qed

lemma run_action_no_id:
  "filter (\<lambda>c. has_id (snd c)) (send_calls (snd (snd (run_action env d s)))) = []"
proof -
  let ?a = "dict_get d ''action''"
  consider (scan) "?a = JStr ''scan''" | (connect) "?a = JStr ''connect''"
    | (disconnect) "?a = JStr ''disconnect''" | (wr) "?a = JStr ''write''"
    | (other) "?a \<noteq> JStr ''scan''" "?a \<noteq> JStr ''connect''" "?a \<noteq> JStr ''disconnect''"
        "?a \<noteq> JStr ''write''"
    by blast
  then show ?thesis
  proof cases
    case scan
    then show ?thesis
      by (simp add: run_action_def scan_def split: sum.splits)
  next
    case connect
    show ?thesis
    proof (cases "dict_item d ''device_id''")
      case (Inl e)
      then show ?thesis using connect by (simp add: run_action_def)
    next
      case (Inr device_id)
      obtain r s' t where c: "connect env device_id (dict_get d ''device_name'') s = (r, s', t)"
        by (cases "connect env device_id (dict_get d ''device_name'') s") auto
      have "filter (\<lambda>c. has_id (snd c)) (send_calls t) = []"
        using connect_no_id [of env device_id "dict_get d ''device_name''" s] by (simp add: c)
      then show ?thesis
        using connect Inr by (simp add: run_action_def c split: sum.splits)
    qed
  next
    case disconnect
    obtain r s' t where c: "disconnect env (request_disconnect env) s = (r, s', t)"
      by (cases "disconnect env (request_disconnect env) s") auto
    have "filter (\<lambda>c. has_id (snd c)) (send_calls t) = []"
      using disconnect_no_id [of env "request_disconnect env" s] by (simp add: c)
    then show ?thesis
      using disconnect by (simp add: run_action_def c split: sum.splits)
  next
    case wr
    then show ?thesis
      by (simp add: run_action_def relay_write_def split: sum.splits)
  next
    case other
    then show ?thesis
      by (simp add: run_action_def Let_def)
  qed
qed

subsection \<open>scan\<close>

text \<open>
  C7. Whatever the transport discovers, \<open>scan\<close> returns, without error and in discovery
  order, the record (address as id, name, signal sample or null) of exactly the devices
  whose display name starts with the product prefix; a device with no name or another
  name is left out, and when none qualifies the result is the empty list.
\<close>

theorem scan_keeps_prefixed_devices:
  "discover env = Inr devices \<Longrightarrow>
     scan env timeout =
       (Inr (JArr (map record_of (filter carries_prefix devices))), [Discover timeout])"
  by (simp add: scan_def scan_loop_append)

theorem scan_keeps_prefixed_devices_witness:
  "discover env_ok = Inr test_devices \<and>
   scan env_ok (JNum 5) =
     (Inr (JArr [JObj [(''id'', JStr ''AA:BB:CC:DD:EE:FF''), (''name'', JStr ''VTR-12345''),
                       (''rssi'', JNum (- 50))]]),
      [Discover (JNum 5)])"
proof -
  have h: "discover env_ok = Inr test_devices"
    by (simp add: env_ok_def)
  show ?thesis
    using h scan_keeps_prefixed_devices [OF h, of "JNum 5"]
    by (simp add: test_devices_def carries_prefix_def record_of_def startswith_def
        DEVICE_NAME_PREFIX_def opt_str_def)
qed

subsection \<open>The unexpected-disconnect callback\<close>

text \<open>
  C8. When the transport invokes the unexpected-disconnect callback while a channel is
  attached, the callback schedules exactly one push, the \<open>disconnected\<close> event with
  \<open>unexpected\<close> true and the device record that was stored before; the connection
  handle, both cached characteristics and the device record are cleared; and the
  scheduled push, once it runs, is one \<^verbatim>\<open>send_json\<close> call of that frame on that channel.
  No request is involved: the callback takes the relay alone.
\<close>

theorem unexpected_disconnect_push:
  "websocket s = Some ws \<Longrightarrow>
     snd (on_disconnect s) =
       [JObj [(''type'', JStr ''disconnected''), (''device'', connected_device s),
              (''unexpected'', JBool True)]] \<and>
     client (fst (on_disconnect s)) = None \<and>
     write_char (fst (on_disconnect s)) = None \<and>
     notify_char (fst (on_disconnect s)) = None \<and>
     connected_device (fst (on_disconnect s)) = JNull \<and>
     websocket (fst (on_disconnect s)) = Some ws \<and>
     send_calls (concat (map (run_task env (fst (on_disconnect s))) (snd (on_disconnect s)))) =
       [(ws, JObj [(''type'', JStr ''disconnected''), (''device'', connected_device s),
                   (''unexpected'', JBool True)])]"
  by (simp add: on_disconnect_def run_task_def send_ws_def split: sum.splits)

theorem unexpected_disconnect_push_witness:
  "websocket connected_relay = Some 1 \<and>
   snd (on_disconnect connected_relay) =
     [JObj [(''type'', JStr ''disconnected''),
            (''device'', JObj [(''id'', JStr ''AA:BB:CC:DD:EE:FF''),
                               (''name'', JStr ''VTR-TEST'')]),
            (''unexpected'', JBool True)]] \<and>
   fst (on_disconnect connected_relay) = BLERelay_init\<lparr>websocket := Some 1\<rparr> \<and>
   delivered (concat (map (run_task env_ok (fst (on_disconnect connected_relay)))
                          (snd (on_disconnect connected_relay)))) =
     [(1, JObj [(''type'', JStr ''disconnected''),
                (''device'', JObj [(''id'', JStr ''AA:BB:CC:DD:EE:FF''),
                                   (''name'', JStr ''VTR-TEST'')]),
                (''unexpected'', JBool True)])]"
proof -
  have h: "websocket connected_relay = Some 1"
    by (simp add: connected_relay_def)
  show ?thesis
    using h unexpected_disconnect_push [OF h, of env_ok]
    by (simp add: connected_relay_def on_disconnect_def BLERelay_init_def run_task_def
        send_ws_def env_ok_def accepting_def)
qed

subsection \<open>The stored device record\<close>

text \<open>
  C10. When \<open>connect\<close> succeeds and no display name was supplied (\<^verbatim>\<open>device_name\<close> is
  \<^verbatim>\<open>None\<close>), the stored device record has the device identifier as its name: so has
  the record \<open>get_status\<close> returns, the one the \<open>connected\<close> push carries to an attached
  channel, and the one in the result of the \<open>connect\<close> action.
\<close>

theorem connect_without_name_stores_identifier:
  "connect env device_id JNull s = (Inr (), s', t) \<Longrightarrow>
     connected_device s' = JObj [(''id'', device_id), (''name'', device_id)] \<and>
     get_status s' =
       [(''connected'', JBool True),
        (''device'', JObj [(''id'', device_id), (''name'', device_id)])] \<and>
     (\<forall>ws. websocket s = Some ws \<longrightarrow>
        last (send_calls t) =
          (ws, JObj [(''type'', JStr ''connected''),
                     (''device'', JObj [(''id'', device_id), (''name'', device_id)])])) \<and>
     (\<forall>msg. dict_get msg ''action'' = JStr ''connect'' \<and>
            dict_item msg ''device_id'' = Inr device_id \<and>
            dict_get msg ''device_name'' = JNull \<longrightarrow>
        fst (run_action env msg s) =
          Inr (JObj [(''status'', JStr ''connected''),
                     (''device'', JObj [(''id'', device_id), (''name'', device_id)])]))"
proof -
  assume a: "connect env device_id JNull s = (Inr (), s', t)"
  from connect_success [OF a]
  have c: "connected_device s' = JObj [(''id'', device_id), (''name'', device_id)]"
    and cl: "client s' = Some \<lparr>address = device_id, is_connected = True\<rparr>"
    and p: "\<forall>ws. websocket s = Some ws \<longrightarrow>
        last (send_calls t) =
          (ws, JObj [(''type'', JStr ''connected''),
                     (''device'', JObj [(''id'', device_id), (''name'', device_id)])])"
    by (simp_all add: py_or_def)
  have st: "get_status s' =
       [(''connected'', JBool True),
        (''device'', JObj [(''id'', device_id), (''name'', device_id)])]"
    by (simp add: get_status_def relay_is_connected_def c cl)
  have ra: "\<forall>msg. dict_get msg ''action'' = JStr ''connect'' \<and>
            dict_item msg ''device_id'' = Inr device_id \<and>
            dict_get msg ''device_name'' = JNull \<longrightarrow>
        fst (run_action env msg s) =
          Inr (JObj [(''status'', JStr ''connected''),
                     (''device'', JObj [(''id'', device_id), (''name'', device_id)])])"
    by (simp add: run_action_def a c)
  show ?thesis using c st p ra by blast
qed

theorem connect_without_name_stores_identifier_witness:
  "connect env_ok (JStr ''AA:BB:CC:DD:EE:FF'') JNull (BLERelay_init\<lparr>websocket := Some 1\<rparr>) =
     (Inr (),
      connected_relay\<lparr>connected_device :=
         JObj [(''id'', JStr ''AA:BB:CC:DD:EE:FF''), (''name'', JStr ''AA:BB:CC:DD:EE:FF'')]\<rparr>,
      [ClientConnect (JStr ''AA:BB:CC:DD:EE:FF''), StartNotify test_notify_char,
       StartNotify test_write_char,
       Sent 1 (JObj [(''type'', JStr ''connected''),
                     (''device'', JObj [(''id'', JStr ''AA:BB:CC:DD:EE:FF''),
                                        (''name'', JStr ''AA:BB:CC:DD:EE:FF'')])])]) \<and>
   get_status (connected_relay\<lparr>connected_device :=
         JObj [(''id'', JStr ''AA:BB:CC:DD:EE:FF''), (''name'', JStr ''AA:BB:CC:DD:EE:FF'')]\<rparr>) =
     [(''connected'', JBool True),
      (''device'', JObj [(''id'', JStr ''AA:BB:CC:DD:EE:FF''),
                         (''name'', JStr ''AA:BB:CC:DD:EE:FF'')])] \<and>
   fst (run_action env_ok
          [(''id'', JStr ''1''), (''action'', JStr ''connect''),
           (''device_id'', JStr ''AA:BB:CC:DD:EE:FF'')]
          (BLERelay_init\<lparr>websocket := Some 1\<rparr>)) =
     Inr (JObj [(''status'', JStr ''connected''),
                (''device'', JObj [(''id'', JStr ''AA:BB:CC:DD:EE:FF''),
                                   (''name'', JStr ''AA:BB:CC:DD:EE:FF'')])])"
proof -
  have h: "connect env_ok (JStr ''AA:BB:CC:DD:EE:FF'') JNull
             (BLERelay_init\<lparr>websocket := Some 1\<rparr>) =
     (Inr (),
      connected_relay\<lparr>connected_device :=
         JObj [(''id'', JStr ''AA:BB:CC:DD:EE:FF''), (''name'', JStr ''AA:BB:CC:DD:EE:FF'')]\<rparr>,
      [ClientConnect (JStr ''AA:BB:CC:DD:EE:FF''), StartNotify test_notify_char,
       StartNotify test_write_char,
       Sent 1 (JObj [(''type'', JStr ''connected''),
                     (''device'', JObj [(''id'', JStr ''AA:BB:CC:DD:EE:FF''),
                                        (''name'', JStr ''AA:BB:CC:DD:EE:FF'')])])])"
    by code_simp
  have m: "dict_get [(''id'', JStr ''1''), (''action'', JStr ''connect''),
                     (''device_id'', JStr ''AA:BB:CC:DD:EE:FF'')] ''action'' = JStr ''connect'' \<and>
           dict_item [(''id'', JStr ''1''), (''action'', JStr ''connect''),
                      (''device_id'', JStr ''AA:BB:CC:DD:EE:FF'')] ''device_id'' =
             Inr (JStr ''AA:BB:CC:DD:EE:FF'') \<and>
           dict_get [(''id'', JStr ''1''), (''action'', JStr ''connect''),
                     (''device_id'', JStr ''AA:BB:CC:DD:EE:FF'')] ''device_name'' = JNull"
    by (simp add: dict_get_def dict_get_default_def dict_item_def)
  show ?thesis
    using h m connect_without_name_stores_identifier [OF h] by blast
qed

subsection \<open>Attaching and detaching the channel\<close>

text \<open>
  C9, at the input where the code departs from it. Channel 1 is attached, channel 2
  attaches after it and replaces it (nothing is sent to or closed on channel 1); then
  channel 1 closes. Its \<^verbatim>\<open>finally\<close> sets \<^verbatim>\<open>relay.websocket\<close> to \<^verbatim>\<open>None\<close> without
  looking at what is attached, so channel 2 is detached although it is still open.
\<close>

theorem superseded_channel_close_detaches_successor:
  "endpoint_open env_ok 2 (fst (snd (endpoint_open env_ok 1 BLERelay_init))) =
     (Inr (), BLERelay_init\<lparr>websocket := Some 2\<rparr>,
      [Sent 2 (JObj [(''type'', JStr ''status''), (''connected'', JBool False),
                     (''device'', JNull)])]) \<and>
   endpoint_serve 1 [(env_ok, ReceiveRaises (Exn WebSocketDisconnect ''1001''))]
     (BLERelay_init\<lparr>websocket := Some 2\<rparr>) =
     (Closed, BLERelay_init\<lparr>websocket := None\<rparr>, [])"
  by code_simp

subsection \<open>disconnect\<close>

text \<open>
  C4 as stated fails where the transport-level disconnect raises: the relay is
  connected, \<^verbatim>\<open>client.disconnect()\<close> raises, and \<open>disconnect\<close> raises in turn with
  every field as it was and nothing pushed.
\<close>

theorem disconnect_keeps_state_when_transport_raises:
  "disconnect env_ok (Inl link_lost) connected_relay =
     (Inl link_lost, connected_relay, [ClientDisconnect (JStr ''AA:BB:CC:DD:EE:FF'')])"
  by code_simp

text \<open>
  C4, amended. \<open>disconnect\<close> can be called in every state. Whenever the transport-level
  disconnect succeeds or is skipped (no active connection), it returns normally, clears
  the connection handle, the device record and both cached characteristics, and makes
  one push to the attached channel, if there is one: the \<open>disconnected\<close> event without
  the \<open>unexpected\<close> flag, carrying the device record stored before. When the
  transport-level disconnect raises, the exception reaches the caller, the state is as
  before and nothing is pushed.
\<close>

theorem disconnect_clears_unless_transport_raises:
  "((relay_is_connected s \<longrightarrow> r = Inr ()) \<longrightarrow>
      fst (disconnect env r s) = Inr () \<and>
      fst (snd (disconnect env r s)) =
        s\<lparr>client := None, write_char := None, notify_char := None,
           connected_device := JNull\<rparr> \<and>
      send_calls (snd (snd (disconnect env r s))) =
        (case websocket s of
           None \<Rightarrow> []
         | Some ws \<Rightarrow> [(ws, JObj [(''type'', JStr ''disconnected''),
                                   (''device'', connected_device s)])])) \<and>
   (relay_is_connected s \<and> r = Inl e \<longrightarrow>
      fst (disconnect env r s) = Inl e \<and>
      fst (snd (disconnect env r s)) = s \<and>
      send_calls (snd (snd (disconnect env r s))) = [])"
  by (auto simp: disconnect_def Let_def send_calls_send_ws relay_is_connected_def
      split: option.splits sum.splits)

theorem disconnect_clears_unless_transport_raises_witness:
  "relay_is_connected connected_relay \<and>
   disconnect env_ok (Inr ()) connected_relay =
     (Inr (), BLERelay_init\<lparr>websocket := Some 1\<rparr>,
      [ClientDisconnect (JStr ''AA:BB:CC:DD:EE:FF''),
       Sent 1 (JObj [(''type'', JStr ''disconnected''),
                     (''device'', JObj [(''id'', JStr ''AA:BB:CC:DD:EE:FF''),
                                        (''name'', JStr ''VTR-TEST'')])])]) \<and>
   disconnect env_ok (Inl link_lost) BLERelay_init = (Inr (), BLERelay_init, []) \<and>
   fst (snd (disconnect env_ok (Inl link_lost) connected_relay)) = connected_relay"
proof -
  have c: "relay_is_connected connected_relay"
    by (simp add: relay_is_connected_def connected_relay_def)
  have n: "\<not> relay_is_connected BLERelay_init"
    by (simp add: relay_is_connected_def BLERelay_init_def)
  have a: "disconnect env_ok (Inr ()) connected_relay =
     (Inr (), BLERelay_init\<lparr>websocket := Some 1\<rparr>,
      [ClientDisconnect (JStr ''AA:BB:CC:DD:EE:FF''),
       Sent 1 (JObj [(''type'', JStr ''disconnected''),
                     (''device'', JObj [(''id'', JStr ''AA:BB:CC:DD:EE:FF''),
                                        (''name'', JStr ''VTR-TEST'')])])])"
    by code_simp
  have b: "disconnect env_ok (Inl link_lost) BLERelay_init = (Inr (), BLERelay_init, [])"
    by code_simp
  show ?thesis
    using c n a b
      disconnect_clears_unless_transport_raises
        [of connected_relay "Inr ()" env_ok link_lost]
      disconnect_clears_unless_transport_raises
        [of connected_relay "Inl link_lost" env_ok link_lost]
      disconnect_clears_unless_transport_raises
        [of BLERelay_init "Inl link_lost" env_ok link_lost]
    by simp
qed

subsection \<open>write\<close>

text \<open>
  C5 as stated fails where a connection is active and no write characteristic is
  resolved. A \<open>connect\<close> to a device without the write characteristic whose clean-up
  disconnect raises leaves such a relay; \<open>write\<close> of the empty payload on it does not
  fail with ``Not connected'' but calls the transport with no characteristic.
\<close>

theorem write_without_characteristic_reaches_transport:
  "connect (env_ok\<lparr>client_services := notify_only_services,
                   cleanup_disconnect := Inl link_lost\<rparr>)
     (JStr ''AA:BB:CC:DD:EE:FF'') JNull BLERelay_init =
     (Inl link_lost, half_connected_relay,
      [ClientConnect (JStr ''AA:BB:CC:DD:EE:FF''),
       ClientDisconnect (JStr ''AA:BB:CC:DD:EE:FF'')]) \<and>
   write_char half_connected_relay = None \<and>
   relay_write env_ok [] half_connected_relay = (Inr (), [WriteGattChar None [] True])"
  by code_simp

text \<open>
  C5, amended. For every byte payload, the empty one included, \<open>write\<close> fails with
  \<^verbatim>\<open>ConnectionError("Not connected")\<close>, without calling the transport, when there is no
  active connection (no client, or a client that is not connected). When a connection is
  active it makes one transport write of the payload to the cached write characteristic,
  whatever that is, with the response (acknowledgment) requested, and its outcome is the
  outcome of that awaited call.
\<close>

theorem write_guards_connection_only:
  "(\<not> relay_is_connected s \<longrightarrow>
      relay_write env data s = (Inl (Exn ConnectionError ''Not connected''), [])) \<and>
   (relay_is_connected s \<longrightarrow>
      fst (relay_write env data s) = write_gatt_char env \<and>
      transport_calls (snd (relay_write env data s)) =
        [WriteGattChar (write_char s) data True])"
  by (simp add: relay_write_def)

theorem write_guards_connection_only_witness:
  "\<not> relay_is_connected BLERelay_init \<and>
   relay_write env_ok [] BLERelay_init = (Inl (Exn ConnectionError ''Not connected''), []) \<and>
   relay_is_connected connected_relay \<and>
   relay_write env_ok [10, 11] connected_relay =
     (Inr (), [WriteGattChar (Some test_write_char) [10, 11] True])"
proof -
  have n: "\<not> relay_is_connected BLERelay_init"
    by (simp add: relay_is_connected_def BLERelay_init_def)
  have c: "relay_is_connected connected_relay"
    by (simp add: relay_is_connected_def connected_relay_def)
  show ?thesis
    using n c write_guards_connection_only [of BLERelay_init env_ok "[]"]
      write_guards_connection_only [of connected_relay env_ok "[10, 11]"]
    by (simp add: relay_write_def env_ok_def connected_relay_def)
qed

subsection \<open>connect while connected\<close>

text \<open>
  C3 as stated fails where the teardown of the prior connection raises: line 59 awaits
  \<open>disconnect\<close> outside any \<^verbatim>\<open>try\<close>, so the transport error is the result of
  \<open>connect\<close>, the prior connection stays in the relay and no new connection is opened.
\<close>

theorem connect_stops_when_teardown_raises:
  "connect (env_ok\<lparr>teardown_disconnect := Inl link_lost\<rparr>) (JStr ''11:22:33:44:55:66'') JNull
     connected_relay =
     (Inl link_lost, connected_relay, [ClientDisconnect (JStr ''AA:BB:CC:DD:EE:FF'')])"
  by code_simp

text \<open>
  C3, amended. A \<open>connect\<close> issued while a connection is active first performs the full
  \<open>disconnect\<close> of the prior connection: the transport disconnect of the prior client,
  the clearing of the state and the \<open>disconnected\<close> push all come before the new
  transport connection is opened, and the call goes on as a \<open>connect\<close> on the cleared
  relay. A transport error raised during that teardown is surfaced to the caller: it is
  the result of \<open>connect\<close>, the state is as before and no new connection is attempted.
\<close>

theorem connect_tears_down_prior_connection_first:
  "client s = Some c \<and> is_connected c \<longrightarrow>
     (teardown_disconnect env = Inr () \<longrightarrow>
        (\<exists>rest.
           snd (snd (connect env device_id device_name s)) =
             ClientDisconnect (address c) #
             send_ws env (s\<lparr>client := None, write_char := None, notify_char := None,
                             connected_device := JNull\<rparr>)
               (JObj [(''type'', JStr ''disconnected''), (''device'', connected_device s)]) @
             ClientConnect device_id # rest) \<and>
        fst (connect env device_id device_name s) =
          fst (connect_open env device_id device_name
                 (s\<lparr>client := None, write_char := None, notify_char := None,
                    connected_device := JNull\<rparr>)) \<and>
        fst (snd (connect env device_id device_name s)) =
          fst (snd (connect_open env device_id device_name
                 (s\<lparr>client := None, write_char := None, notify_char := None,
                    connected_device := JNull\<rparr>)))) \<and>
     (teardown_disconnect env = Inl e \<longrightarrow>
        connect env device_id device_name s = (Inl e, s, [ClientDisconnect (address c)]))"
proof -
  obtain rest where r: "snd (snd (connect_open env device_id device_name
                 (s\<lparr>client := None, write_char := None, notify_char := None,
                    connected_device := JNull\<rparr>))) = ClientConnect device_id # rest"
    using connect_open_trace_head by blast
  show ?thesis
    using r
    by (auto simp: connect_def disconnect_def Let_def relay_is_connected_def
        split: prod.splits sum.splits)
qed

theorem connect_tears_down_prior_connection_first_witness:
  "client connected_relay = Some \<lparr>address = JStr ''AA:BB:CC:DD:EE:FF'', is_connected = True\<rparr> \<and>
   teardown_disconnect env_ok = Inr () \<and>
   connect env_ok (JStr ''11:22:33:44:55:66'') (JStr ''VTR-2'') connected_relay =
     (Inr (),
      connected_relay\<lparr>client := Some \<lparr>address = JStr ''11:22:33:44:55:66'', is_connected = True\<rparr>,
                      connected_device := JObj [(''id'', JStr ''11:22:33:44:55:66''),
                                                (''name'', JStr ''VTR-2'')]\<rparr>,
      [ClientDisconnect (JStr ''AA:BB:CC:DD:EE:FF''),
       Sent 1 (JObj [(''type'', JStr ''disconnected''),
                     (''device'', JObj [(''id'', JStr ''AA:BB:CC:DD:EE:FF''),
                                        (''name'', JStr ''VTR-TEST'')])]),
       ClientConnect (JStr ''11:22:33:44:55:66''),
       StartNotify test_notify_char, StartNotify test_write_char,
       Sent 1 (JObj [(''type'', JStr ''connected''),
                     (''device'', JObj [(''id'', JStr ''11:22:33:44:55:66''),
                                        (''name'', JStr ''VTR-2'')])])]) \<and>
   connect (env_ok\<lparr>teardown_disconnect := Inl link_lost\<rparr>) (JStr ''11:22:33:44:55:66'')
     (JStr ''VTR-2'') connected_relay =
     (Inl link_lost, connected_relay, [ClientDisconnect (JStr ''AA:BB:CC:DD:EE:FF'')])"
proof -
  have c: "client connected_relay =
             Some \<lparr>address = JStr ''AA:BB:CC:DD:EE:FF'', is_connected = True\<rparr>"
    by (simp add: connected_relay_def)
  have t: "teardown_disconnect env_ok = Inr ()"
    by (simp add: env_ok_def)
  have f: "teardown_disconnect (env_ok\<lparr>teardown_disconnect := Inl link_lost\<rparr>) = Inl link_lost"
    by simp
  have a: "connect env_ok (JStr ''11:22:33:44:55:66'') (JStr ''VTR-2'') connected_relay =
     (Inr (),
      connected_relay\<lparr>client := Some \<lparr>address = JStr ''11:22:33:44:55:66'', is_connected = True\<rparr>,
                      connected_device := JObj [(''id'', JStr ''11:22:33:44:55:66''),
                                                (''name'', JStr ''VTR-2'')]\<rparr>,
      [ClientDisconnect (JStr ''AA:BB:CC:DD:EE:FF''),
       Sent 1 (JObj [(''type'', JStr ''disconnected''),
                     (''device'', JObj [(''id'', JStr ''AA:BB:CC:DD:EE:FF''),
                                        (''name'', JStr ''VTR-TEST'')])]),
       ClientConnect (JStr ''11:22:33:44:55:66''),
       StartNotify test_notify_char, StartNotify test_write_char,
       Sent 1 (JObj [(''type'', JStr ''connected''),
                     (''device'', JObj [(''id'', JStr ''11:22:33:44:55:66''),
                                        (''name'', JStr ''VTR-2'')])])])"
    by code_simp
  have b: "connect (env_ok\<lparr>teardown_disconnect := Inl link_lost\<rparr>) (JStr ''11:22:33:44:55:66'')
     (JStr ''VTR-2'') connected_relay =
     (Inl link_lost, connected_relay, [ClientDisconnect (JStr ''AA:BB:CC:DD:EE:FF'')])"
    using c f
      connect_tears_down_prior_connection_first
        [of connected_relay "\<lparr>address = JStr ''AA:BB:CC:DD:EE:FF'', is_connected = True\<rparr>"
            "env_ok\<lparr>teardown_disconnect := Inl link_lost\<rparr>"
            "JStr ''11:22:33:44:55:66''" "JStr ''VTR-2''" link_lost]
    by simp
  show ?thesis
    using c t a b by simp
qed

subsection \<open>A connect that fails\<close>

text \<open>
  C2 as stated fails on the connection handle: the new client is stored in the relay
  (line 61) before its \<^verbatim>\<open>connect()\<close> is awaited, and nothing removes it when that call
  raises.
\<close>

theorem failed_connect_keeps_client_handle:
  "connect (env_ok\<lparr>client_connect := Inl link_lost\<rparr>) (JStr ''AA:BB:CC:DD:EE:FF'') JNull
     BLERelay_init =
     (Inl link_lost,
      BLERelay_init\<lparr>client := Some \<lparr>address = JStr ''AA:BB:CC:DD:EE:FF'',
                                      is_connected = False\<rparr>\<rparr>,
      [ClientConnect (JStr ''AA:BB:CC:DD:EE:FF'')])"
  by code_simp

text \<open>
  C2, amended. Take a relay that holds no stale cache, and a teardown of the prior
  connection, if there is one, that succeeds. When the transport-level connect raises or
  does not establish the link, \<open>connect\<close> fails (with the transport's error, or
  \<^verbatim>\<open>ConnectionError("Failed to connect")\<close>) and the relay is disconnected: the
  device record and both cached characteristics are absent and the status reports
  \<open>connected\<close> false and no device, while the connection handle holds the new client,
  which is not connected. When the device lacks the write or the notify characteristic and
  the clean-up disconnect succeeds, \<open>connect\<close> fails with
  \<^verbatim>\<open>ConnectionError("Required characteristics not found")\<close>, the handle, the record and
  the characteristics are all absent, and the transport calls end with the connect and
  the disconnect of the new client: no connection is left open.
\<close>

theorem failed_connect_leaves_no_connection:
  assumes "consistent s"
    and "relay_is_connected s \<longrightarrow> teardown_disconnect env = Inr ()"
  shows
    "(client_connect env = Inl e \<or> client_connect env = Inr False \<longrightarrow>
        fst (connect env device_id device_name s) =
          (case client_connect env of
             Inl e \<Rightarrow> Inl e
           | Inr linked \<Rightarrow> Inl (Exn ConnectionError ''Failed to connect'')) \<and>
        client (fst (snd (connect env device_id device_name s))) =
          Some \<lparr>address = device_id, is_connected = False\<rparr> \<and>
        write_char (fst (snd (connect env device_id device_name s))) = None \<and>
        notify_char (fst (snd (connect env device_id device_name s))) = None \<and>
        connected_device (fst (snd (connect env device_id device_name s))) = JNull \<and>
        get_status (fst (snd (connect env device_id device_name s))) =
          [(''connected'', JBool False), (''device'', JNull)]) \<and>
     (client_connect env = Inr True \<and>
      (\<not> exposes (client_services env) WRITE_CHAR_UUID \<or>
       \<not> exposes (client_services env) NOTIFY_CHAR_UUID) \<and>
      cleanup_disconnect env = Inr () \<longrightarrow>
        fst (connect env device_id device_name s) =
          Inl (Exn ConnectionError ''Required characteristics not found'') \<and>
        client (fst (snd (connect env device_id device_name s))) = None \<and>
        write_char (fst (snd (connect env device_id device_name s))) = None \<and>
        notify_char (fst (snd (connect env device_id device_name s))) = None \<and>
        connected_device (fst (snd (connect env device_id device_name s))) = JNull \<and>
        (\<exists>before.
           transport_calls (snd (snd (connect env device_id device_name s))) =
             before @ [ClientConnect device_id, ClientDisconnect device_id]))"
proof -
  define s1 where "s1 = (if relay_is_connected s
      then s\<lparr>client := None, write_char := None, notify_char := None, connected_device := JNull\<rparr>
      else s)"
  have clean: "write_char s1 = None" "notify_char s1 = None" "connected_device s1 = JNull"
    using assms(1) by (auto simp: s1_def consistent_def)
  obtain t1 where co: "connect env device_id device_name s =
      (fst (connect_open env device_id device_name s1),
       fst (snd (connect_open env device_id device_name s1)),
       t1 @ snd (snd (connect_open env device_id device_name s1)))"
  proof (cases "relay_is_connected s")
    case True
    then obtain c where c: "client s = Some c" "is_connected c"
      by (auto simp: relay_is_connected_def split: option.splits)
    have "teardown_disconnect env = Inr ()" using True assms(2) by simp
    then have "connect env device_id device_name s =
      (fst (connect_open env device_id device_name s1),
       fst (snd (connect_open env device_id device_name s1)),
       (ClientDisconnect (address c) #
        send_ws env s1 (JObj [(''type'', JStr ''disconnected''),
                              (''device'', connected_device s)])) @
       snd (snd (connect_open env device_id device_name s1)))"
      using True disconnect_connected [OF c, of env]
      by (simp add: connect_def s1_def case_prod_beta)
    then show ?thesis by (rule that)
  next
    case False
    then show ?thesis using that [of "[]"] by (simp add: connect_def s1_def)
  qed
  show ?thesis
    using connect_open_raises [of env _ device_id device_name s1]
      connect_open_no_link [of env device_id device_name s1]
      connect_open_missing [OF clean(1,2), of env device_id device_name]
    by (auto simp: co clean get_status_def relay_is_connected_def)
qed

theorem failed_connect_leaves_no_connection_witness:
  "consistent BLERelay_init \<and>
   \<not> relay_is_connected BLERelay_init \<and>
   client_connect (env_ok\<lparr>client_connect := Inl link_lost\<rparr>) = Inl link_lost \<and>
   fst (connect (env_ok\<lparr>client_connect := Inl link_lost\<rparr>) (JStr ''AA:BB:CC:DD:EE:FF'') JNull
          BLERelay_init) = Inl link_lost \<and>
   get_status (fst (snd (connect (env_ok\<lparr>client_connect := Inl link_lost\<rparr>)
                           (JStr ''AA:BB:CC:DD:EE:FF'') JNull BLERelay_init))) =
     [(''connected'', JBool False), (''device'', JNull)] \<and>
   consistent connected_relay \<and>
   relay_is_connected connected_relay \<and>
   teardown_disconnect (env_ok\<lparr>client_services := notify_only_services\<rparr>) = Inr () \<and>
   \<not> exposes notify_only_services WRITE_CHAR_UUID \<and>
   fst (connect (env_ok\<lparr>client_services := notify_only_services\<rparr>)
          (JStr ''11:22:33:44:55:66'') JNull connected_relay) =
     Inl (Exn ConnectionError ''Required characteristics not found'') \<and>
   fst (snd (connect (env_ok\<lparr>client_services := notify_only_services\<rparr>)
               (JStr ''11:22:33:44:55:66'') JNull connected_relay)) =
     BLERelay_init\<lparr>websocket := Some 1\<rparr> \<and>
   transport_calls
     (snd (snd (connect (env_ok\<lparr>client_services := notify_only_services\<rparr>)
                  (JStr ''11:22:33:44:55:66'') JNull connected_relay))) =
     [ClientDisconnect (JStr ''AA:BB:CC:DD:EE:FF''), ClientConnect (JStr ''11:22:33:44:55:66''),
      ClientDisconnect (JStr ''11:22:33:44:55:66'')]"
proof -
  have i: "consistent BLERelay_init"
    by (simp add: consistent_def BLERelay_init_def)
  have n: "\<not> relay_is_connected BLERelay_init"
    by (simp add: relay_is_connected_def BLERelay_init_def)
  have n': "relay_is_connected BLERelay_init \<longrightarrow>
              teardown_disconnect (env_ok\<lparr>client_connect := Inl link_lost\<rparr>) = Inr ()"
    using n by simp
  have c: "relay_is_connected connected_relay"
    by (simp add: relay_is_connected_def connected_relay_def)
  have ci: "consistent connected_relay"
    using c by (simp add: consistent_def)
  have td: "teardown_disconnect (env_ok\<lparr>client_services := notify_only_services\<rparr>) = Inr ()"
    by (simp add: env_ok_def)
  have c': "relay_is_connected connected_relay \<longrightarrow>
              teardown_disconnect (env_ok\<lparr>client_services := notify_only_services\<rparr>) = Inr ()"
    using td by simp
  have x: "\<not> exposes notify_only_services WRITE_CHAR_UUID"
    by (simp add: exposes_def notify_only_services_def test_notify_char_def lower_def
        lower_char_def WRITE_CHAR_UUID_def SERVICE_UUID_def)
  have e1: "client_connect (env_ok\<lparr>client_connect := Inl link_lost\<rparr>) = Inl link_lost"
    by simp
  have e2: "client_connect (env_ok\<lparr>client_services := notify_only_services\<rparr>) = Inr True \<and>
            client_services (env_ok\<lparr>client_services := notify_only_services\<rparr>) =
              notify_only_services \<and>
            cleanup_disconnect (env_ok\<lparr>client_services := notify_only_services\<rparr>) = Inr ()"
    by (simp add: env_ok_def)
  have t: "connect (env_ok\<lparr>client_services := notify_only_services\<rparr>)
             (JStr ''11:22:33:44:55:66'') JNull connected_relay =
     (Inl (Exn ConnectionError ''Required characteristics not found''),
      BLERelay_init\<lparr>websocket := Some 1\<rparr>,
      [ClientDisconnect (JStr ''AA:BB:CC:DD:EE:FF''),
       Sent 1 (JObj [(''type'', JStr ''disconnected''),
                     (''device'', JObj [(''id'', JStr ''AA:BB:CC:DD:EE:FF''),
                                        (''name'', JStr ''VTR-TEST'')])]),
       ClientConnect (JStr ''11:22:33:44:55:66''),
       ClientDisconnect (JStr ''11:22:33:44:55:66''),
       Sent 1 (JObj [(''type'', JStr ''disconnected''), (''device'', JNull)])])"
    by code_simp
  show ?thesis
    using i n c ci td x e1 e2 t
      failed_connect_leaves_no_connection
        [OF i n', of link_lost "JStr ''AA:BB:CC:DD:EE:FF''" JNull]
      failed_connect_leaves_no_connection
        [OF ci c', of link_lost "JStr ''11:22:33:44:55:66''" JNull]
    by simp
qed

subsection \<open>Responses and correlation ids\<close>

text \<open>
  C6 as stated fails for a request whose id is the empty string: \<^verbatim>\<open>if msg_id:\<close> tests
  the truth value of the id, so the request is served and nothing is sent back.
\<close>

theorem falsy_id_gets_no_response:
  "handle_message env_ok 1 (JObj [(''id'', JStr ''''), (''action'', JStr ''status'')])
     (BLERelay_init\<lparr>websocket := Some 1\<rparr>) =
     (Running, BLERelay_init\<lparr>websocket := Some 1\<rparr>, [])"
  by code_simp

text \<open>
  C6, amended. The pushes an action makes never carry an id. For a request dict whose id
  is truthy (a non-empty string, a non-zero number, ...), at most one frame carrying an id
  is ever delivered, and when the channel accepts what is sent to it the dispatcher sends
  exactly one frame after the action's own pushes, the correlated response: the id with
  the result under \<open>data\<close>, or the id with the message text under \<open>error\<close>; the loop
  goes on. For a request dict whose id is absent or falsy (\<^verbatim>\<open>None\<close>, the empty string,
  zero, ...), the dispatcher sends nothing after a success and one untagged error push
  after a failure, so no frame carrying an id is sent.
\<close>

theorem truthy_id_gets_one_response:
  "filter (\<lambda>c. has_id (snd c)) (send_calls (snd (snd (run_action env d s)))) = [] \<and>
   (truthy (dict_get d ''id'') \<longrightarrow>
      length (filter (\<lambda>c. has_id (snd c))
                (delivered (snd (snd (handle_message env ws (JObj d) s))))) \<le> 1 \<and>
      ((\<forall>frame. send_json env ws frame = Inr ()) \<longrightarrow>
         fst (handle_message env ws (JObj d) s) = Running \<and>
         send_calls (snd (snd (handle_message env ws (JObj d) s))) =
           send_calls (snd (snd (run_action env d s))) @
           [(ws, JObj [(''id'', dict_get d ''id''),
                       (case fst (run_action env d s) of
                          Inr result \<Rightarrow> (''data'', result)
                        | Inl e \<Rightarrow> (''error'', JStr (str_exn e)))])])) \<and>
   (\<not> truthy (dict_get d ''id'') \<longrightarrow>
      send_calls (snd (snd (handle_message env ws (JObj d) s))) =
        send_calls (snd (snd (run_action env d s))) @
        (case fst (run_action env d s) of
           Inr result \<Rightarrow> []
         | Inl e \<Rightarrow> [(ws, JObj [(''type'', JStr ''error''), (''error'', JStr (str_exn e))])]))"
proof -
  obtain r s' t where ra: "run_action env d s = (r, s', t)"
    by (cases "run_action env d s") auto
  have n: "filter (\<lambda>c. has_id (snd c)) (send_calls t) = []"
    using run_action_no_id [of env d s] by (simp add: ra)
  have nd: "filter (\<lambda>c. has_id (snd c)) (delivered t) = []"
    using n by (rule delivered_no_id)
  show ?thesis
    using n nd
    by (auto simp: handle_message_def report_error_def ws_send_def Let_def ra
        split: sum.splits prod.splits)
qed

theorem truthy_id_gets_one_response_witness:
  "truthy (dict_get [(''id'', JStr ''test-1''), (''action'', JStr ''status'')] ''id'') \<and>
   (\<forall>frame. send_json env_ok 1 frame = Inr ()) \<and>
   handle_message env_ok 1 (JObj [(''id'', JStr ''test-1''), (''action'', JStr ''status'')])
     (BLERelay_init\<lparr>websocket := Some 1\<rparr>) =
     (Running, BLERelay_init\<lparr>websocket := Some 1\<rparr>,
      [Sent 1 (JObj [(''id'', JStr ''test-1''),
                     (''data'', JObj [(''connected'', JBool False), (''device'', JNull)])])]) \<and>
   \<not> truthy (dict_get [(''action'', JStr ''bogus'')] ''id'') \<and>
   send_calls (snd (snd (handle_message env_ok 1 (JObj [(''action'', JStr ''bogus'')])
                           (BLERelay_init\<lparr>websocket := Some 1\<rparr>)))) =
     [(1, JObj [(''type'', JStr ''error''), (''error'', JStr ''Unknown action: bogus'')])]"
proof -
  have t: "truthy (dict_get [(''id'', JStr ''test-1''), (''action'', JStr ''status'')] ''id'')"
    by (simp add: dict_get_def dict_get_default_def)
  have a: "\<forall>frame. send_json env_ok 1 frame = Inr ()"
    by (simp add: env_ok_def accepting_def)
  have f: "\<not> truthy (dict_get [(''action'', JStr ''bogus'')] ''id'')"
    by (simp add: dict_get_def dict_get_default_def)
  have h: "handle_message env_ok 1
             (JObj [(''id'', JStr ''test-1''), (''action'', JStr ''status'')])
             (BLERelay_init\<lparr>websocket := Some 1\<rparr>) =
     (Running, BLERelay_init\<lparr>websocket := Some 1\<rparr>,
      [Sent 1 (JObj [(''id'', JStr ''test-1''),
                     (''data'', JObj [(''connected'', JBool False), (''device'', JNull)])])])"
    by code_simp
  have r: "run_action env_ok [(''action'', JStr ''bogus'')] (BLERelay_init\<lparr>websocket := Some 1\<rparr>) =
             (Inl (Exn ValueError ''Unknown action: bogus''),
              BLERelay_init\<lparr>websocket := Some 1\<rparr>, [])"
    by code_simp
  show ?thesis
    using t a f h r
      truthy_id_gets_one_response
        [of env_ok "[(''id'', JStr ''test-1''), (''action'', JStr ''status'')]"
            "BLERelay_init\<lparr>websocket := Some 1\<rparr>" 1]
      truthy_id_gets_one_response
        [of env_ok "[(''action'', JStr ''bogus'')]" "BLERelay_init\<lparr>websocket := Some 1\<rparr>" 1]
    by simp
qed

subsection \<open>Failures while a request is handled\<close>

text \<open>
  What C1 says holds for every failure inside the inner \<^verbatim>\<open>try\<close>: the message text
  goes back, under the id when the id is truthy and as an untagged \<open>error\<close> push
  otherwise, and the loop goes on when the channel takes the frame.
\<close>

lemma action_failure_is_reported:
  "run_action env d s = (Inl e, s', t) \<Longrightarrow>
   send_json env ws
     (if truthy (dict_get d ''id'')
      then JObj [(''id'', dict_get d ''id''), (''error'', JStr (str_exn e))]
      else JObj [(''type'', JStr ''error''), (''error'', JStr (str_exn e))]) = Inr () \<Longrightarrow>
   handle_message env ws (JObj d) s =
     (Running, s',
      t @ [Sent ws (if truthy (dict_get d ''id'')
                    then JObj [(''id'', dict_get d ''id''), (''error'', JStr (str_exn e))]
                    else JObj [(''type'', JStr ''error''), (''error'', JStr (str_exn e))])])"
  by (simp add: handle_message_def report_error_def ws_send_def Let_def)

text \<open>
  C1, at the inputs where the code departs from it. An invalid hex payload is reported
  under the request's id and the loop goes on (first equation). A frame that
  \<^verbatim>\<open>json.loads\<close> rejects is not: \<^verbatim>\<open>json.loads\<close> is called on line 232, before the
  inner \<^verbatim>\<open>try\<close> of line 237, so \<^verbatim>\<open>JSONDecodeError\<close> leaves the \<^verbatim>\<open>while\<close> loop; no
  error frame is sent, the request that follows is never served and the channel is
  detached (second equation). A frame that parses to something that is no dict ends the
  loop in the same way, with the \<^verbatim>\<open>AttributeError\<close> of \<^verbatim>\<open>msg.get\<close> on line 234 (third
  equation).
\<close>

theorem unparseable_frame_ends_the_loop:
  "endpoint_serve 1
     [(env_ok, Parsed (JObj [(''id'', JStr ''3''), (''action'', JStr ''write''),
                             (''data'', JStr ''zz'')]))]
     connected_relay =
     (Running, connected_relay,
      [Sent 1 (JObj [(''id'', JStr ''3''),
                     (''error'', JStr ''non-hexadecimal number found in fromhex() arg at position 0'')])]) \<and>
   endpoint_serve 1
     [(env_ok, Unparseable ''Expecting value: line 1 column 1 (char 0)''),
      (env_ok, Parsed (JObj [(''id'', JStr ''2''), (''action'', JStr ''status'')]))]
     connected_relay =
     (Crashed (Exn JSONDecodeError ''Expecting value: line 1 column 1 (char 0)''),
      connected_relay\<lparr>websocket := None\<rparr>, []) \<and>
   endpoint_serve 1
     [(env_ok, Parsed (JArr [])),
      (env_ok, Parsed (JObj [(''id'', JStr ''2''), (''action'', JStr ''status'')]))]
     connected_relay =
     (Crashed (Exn AttributeError
                 (quote ''list'' @ '' object has no attribute '' @ quote ''get'')),
      connected_relay\<lparr>websocket := None\<rparr>, [])"
  by code_simp

subsection \<open>No stale cache\<close>

text \<open>
  The condition \<open>consistent\<close> of the amended C2 holds of the initial relay and is kept by
  every operation that changes the relay.
\<close>

lemma consistent_init: "consistent BLERelay_init"
  by (simp add: consistent_def BLERelay_init_def)

lemma consistent_disconnect:
  "consistent s \<Longrightarrow> consistent (fst (snd (disconnect env r s)))"
  by (auto simp: consistent_def disconnect_def Let_def relay_is_connected_def
      split: sum.splits option.splits)

lemma consistent_on_disconnect: "consistent (fst (on_disconnect s))"
  by (simp add: consistent_def on_disconnect_def Let_def relay_is_connected_def)

lemma connect_established_connected_or_cleared:
  "relay_is_connected s \<Longrightarrow>
     relay_is_connected (fst (snd (connect_established env device_id device_name s))) \<or>
     fst (snd (connect_established env device_id device_name s)) =
       (service_loop (client_services env) s)
         \<lparr>client := None, write_char := None, notify_char := None, connected_device := JNull\<rparr>"
  by (auto simp: connect_established_def Let_def disconnect_def relay_is_connected_def
      split: option.splits sum.splits)

lemma consistent_connect_established:
  "relay_is_connected s \<Longrightarrow>
     consistent (fst (snd (connect_established env device_id device_name s)))"
  using connect_established_connected_or_cleared [of s env device_id device_name]
  by (auto simp: consistent_def relay_is_connected_def)

lemma consistent_connect_open:
  assumes "write_char s = None" "notify_char s = None" "connected_device s = JNull"
  shows "consistent (fst (snd (connect_open env device_id device_name s)))"
proof (cases "client_connect env")
  case (Inl e)
  then show ?thesis using assms by (simp add: connect_open_def consistent_def)
next
  case (Inr linked)
  show ?thesis
  proof (cases linked)
    case False
    then show ?thesis using Inr assms by (simp add: connect_open_def consistent_def)
  next
    case True
    have "relay_is_connected (s\<lparr>client := Some \<lparr>address = device_id, is_connected = True\<rparr>\<rparr>)"
      by (simp add: relay_is_connected_def)
    from consistent_connect_established [OF this, of env device_id device_name]
    show ?thesis using Inr True by (simp add: connect_open_def case_prod_beta Let_def)
  qed
qed

lemma consistent_connect:
  assumes "consistent s"
  shows "consistent (fst (snd (connect env device_id device_name s)))"
proof (cases "relay_is_connected s")
  case False
  then have "write_char s = None" "notify_char s = None" "connected_device s = JNull"
    using assms by (auto simp: consistent_def)
  from consistent_connect_open [OF this, of env device_id device_name]
  show ?thesis using False by (simp add: connect_def)
next
  case True
  then obtain c where c: "client s = Some c" "is_connected c"
    by (auto simp: relay_is_connected_def split: option.splits)
  show ?thesis
  proof (cases "teardown_disconnect env")
    case (Inl e)
    then show ?thesis
      using True assms by (simp add: connect_def disconnect_def Let_def)
  next
    case (Inr u)
    let ?s1 = "s\<lparr>client := None, write_char := None, notify_char := None,
                 connected_device := JNull\<rparr>"
    have "consistent (fst (snd (connect_open env device_id device_name ?s1)))"
      by (rule consistent_connect_open) simp_all
    then show ?thesis
      using True Inr disconnect_connected [OF c, of env]
      by (simp add: connect_def case_prod_beta)
  qed
qed

end
